theory Spec2Isabelle
  imports Complex_Main
begin

section \<open>Python exceptions as values\<close>

text \<open>
  The module \<^verbatim>\<open>mass.py\<close> raises no exception of its own. The two that its
  statements can raise are the out-of-range subscript of a list (\<^verbatim>\<open>xs[i]\<close>) and
  the missing key of the dictionary \<^verbatim>\<open>Ame.symbols\<close>; the latter carries the key.
\<close>

datatype py_error = IndexError | KeyError string

section \<open>The periodic symbol table\<close>

text \<open>
  \<^verbatim>\<open>Ame.symbols\<close>, in the order of the source. The dictionary has no duplicate
  key, so the association list read with \<open>map_of\<close> is the dictionary.
\<close>

definition symbols_table :: "(string \<times> int) list" where
  "symbols_table =
    [(''n'', 0), (''H'', 1), (''He'', 2), (''Li'', 3), (''Be'', 4), (''B'', 5), (''C'', 6),
     (''N'', 7), (''O'', 8), (''F'', 9), (''Ne'', 10), (''Na'', 11),
     (''Mg'', 12), (''Al'', 13), (''Si'', 14), (''P'', 15), (''S'', 16), (''Cl'', 17),
     (''Ar'', 18), (''K'', 19), (''Ca'', 20), (''Sc'', 21),
     (''Ti'', 22), (''V'', 23), (''Cr'', 24), (''Mn'', 25), (''Fe'', 26), (''Co'', 27),
     (''Ni'', 28), (''Cu'', 29), (''Zn'', 30), (''Ga'', 31),
     (''Ge'', 32), (''As'', 33), (''Se'', 34), (''Br'', 35), (''Kr'', 36), (''Rb'', 37),
     (''Sr'', 38), (''Y'', 39), (''Zr'', 40), (''Nb'', 41),
     (''Mo'', 42), (''Tc'', 43), (''Ru'', 44), (''Rh'', 45), (''Pd'', 46), (''Ag'', 47),
     (''Cd'', 48), (''In'', 49), (''Sn'', 50), (''Sb'', 51),
     (''Te'', 52), (''I'', 53), (''Xe'', 54), (''Cs'', 55), (''Ba'', 56), (''La'', 57),
     (''Ce'', 58), (''Pr'', 59), (''Nd'', 60), (''Pm'', 61),
     (''Sm'', 62), (''Eu'', 63), (''Gd'', 64), (''Tb'', 65), (''Dy'', 66), (''Ho'', 67),
     (''Er'', 68), (''Tm'', 69), (''Yb'', 70), (''Lu'', 71),
     (''Hf'', 72), (''Ta'', 73), (''W'', 74), (''Re'', 75), (''Os'', 76), (''Ir'', 77),
     (''Pt'', 78), (''Au'', 79), (''Hg'', 80), (''Tl'', 81),
     (''Pb'', 82), (''Bi'', 83), (''Po'', 84), (''At'', 85), (''Rn'', 86), (''Fr'', 87),
     (''Ra'', 88), (''Ac'', 89), (''Th'', 90), (''Pa'', 91),
     (''U'', 92), (''Np'', 93), (''Pu'', 94), (''Am'', 95), (''Cm'', 96), (''Bk'', 97),
     (''Cf'', 98), (''Es'', 99), (''Fm'', 100), (''Md'', 101),
     (''No'', 102), (''Lr'', 103), (''Rf'', 104), (''Db'', 105), (''Sg'', 106),
     (''Bh'', 107), (''Hs'', 108), (''Mt'', 109), (''Ds'', 110),
     (''Rg'', 111), (''Cn'', 112), (''Ed'', 113), (''Fl'', 114), (''Ef'', 115),
     (''Lv'', 116), (''Eh'', 117), (''Ei'', 118)]"

definition symbols :: "string \<rightharpoonup> int" where
  "symbols = map_of symbols_table"

section \<open>The two regular expressions of \<^verbatim>\<open>get_number_symbol\<close>\<close>

text \<open>
  The character classes \<^verbatim>\<open>[0-9]\<close>, \<^verbatim>\<open>[A-Z]\<close> and \<^verbatim>\<open>[a-z]\<close> are ranges of ASCII
  characters, also on a Python 3 \<^verbatim>\<open>str\<close>. A code point outside ASCII is several bytes
  of a \<open>string\<close> here, none of them in a class and none the colon, so it is skipped
  by both scans as the one code point is in Python.
\<close>

definition is_digit :: "char \<Rightarrow> bool" where
  "is_digit c \<longleftrightarrow> c \<in> set ''0123456789''"

definition is_upper :: "char \<Rightarrow> bool" where
  "is_upper c \<longleftrightarrow> c \<in> set ''ABCDEFGHIJKLMNOPQRSTUVWXYZ''"

definition is_lower :: "char \<Rightarrow> bool" where
  "is_lower c \<longleftrightarrow> c \<in> set ''abcdefghijklmnopqrstuvwxyz''"

text \<open>\<^verbatim>\<open>int(i)\<close> on a string of decimal digits (leading zeros allowed).\<close>

definition digit_value :: "char \<Rightarrow> int" where
  "digit_value c = int (of_char c) - 48"

definition py_int :: "string \<Rightarrow> int" where
  "py_int s = foldl (\<lambda>n c. 10 * n + digit_value c) 0 s"

text \<open>
  \<^verbatim>\<open>re.findall('[0-9][0-9][0-9]|[0-9][0-9]|[0-9]', item)\<close>: at each position the
  alternatives are tried in their order, a match is consumed, and a position where
  none matches is skipped. The matches are converted by \<^verbatim>\<open>int\<close> at once.
\<close>

fun findall_numbers :: "string \<Rightarrow> int list" where
  "findall_numbers (a # b # c # rest) =
     (if is_digit a \<and> is_digit b \<and> is_digit c then py_int [a, b, c] # findall_numbers rest
      else if is_digit a \<and> is_digit b then py_int [a, b] # findall_numbers (c # rest)
      else if is_digit a then py_int [a] # findall_numbers (b # c # rest)
      else findall_numbers (b # c # rest))"
| "findall_numbers [a, b] =
     (if is_digit a \<and> is_digit b then [py_int [a, b]]
      else if is_digit a then py_int [a] # findall_numbers [b]
      else findall_numbers [b])"
| "findall_numbers [a] = (if is_digit a then [py_int [a]] else [])"
| "findall_numbers [] = []"

text \<open>\<^verbatim>\<open>re.findall('[A-Z][a-z]|[A-Z]', item)\<close>.\<close>

fun findall_symbols :: "string \<Rightarrow> string list" where
  "findall_symbols (a # b # rest) =
     (if is_upper a \<and> is_lower b then [a, b] # findall_symbols rest
      else if is_upper a then [a] # findall_symbols (b # rest)
      else findall_symbols (b # rest))"
| "findall_symbols [a] = (if is_upper a then [[a]] else [])"
| "findall_symbols [] = []"

definition get_number_symbol :: "string \<Rightarrow> int list \<times> string list" where
  "get_number_symbol item = (findall_numbers item, findall_symbols item)"

text \<open>
  The strings that \<^verbatim>\<open>[A-Z][a-z]|[A-Z]\<close> matches as a whole: one upper-case letter,
  or one upper-case letter and one lower-case letter.
\<close>

definition symbol_token :: "string \<Rightarrow> bool" where
  "symbol_token s \<longleftrightarrow>
     (case s of [c] \<Rightarrow> is_upper c | [c, d] \<Rightarrow> is_upper c \<and> is_lower d | _ \<Rightarrow> False)"

section \<open>Subscripts and ranges\<close>

text \<open>
  \<^verbatim>\<open>xs[i]\<close> for an index that is not negative: out of range it raises.
  \<^verbatim>\<open>range(start, stop, step)\<close> for \<open>0 < step\<close> has
  \<open>\<lceil>(stop - start) / step\<rceil>\<close> elements, none when \<open>stop \<le> start\<close>.
\<close>

definition py_get :: "'a list \<Rightarrow> nat \<Rightarrow> py_error + 'a" where
  "py_get xs i = (if i < length xs then Inr (xs ! i) else Inl IndexError)"

definition py_range :: "nat \<Rightarrow> nat \<Rightarrow> nat \<Rightarrow> nat list" where
  "py_range start stop step =
     map (\<lambda>k. start + k * step) [0..<(stop - start + step - 1) div step]"

text \<open>The comprehension \<^verbatim>\<open>[xs[i] for i in r]\<close>: the first failing subscript aborts it.\<close>

fun py_gather :: "'a list \<Rightarrow> nat list \<Rightarrow> py_error + 'a list" where
  "py_gather xs [] = Inr []"
| "py_gather xs (i # r) =
     (case py_get xs i of
        Inl e \<Rightarrow> Inl e
      | Inr x \<Rightarrow> (case py_gather xs r of Inl e \<Rightarrow> Inl e | Inr ys \<Rightarrow> Inr (x # ys)))"

section \<open>\<^verbatim>\<open>get_molecule_info\<close> and \<^verbatim>\<open>evaluate_expr\<close>\<close>

text \<open>The result is the triple (multiplicities, mass numbers, symbols) of the source. The
  list the source calls \<^verbatim>\<open>sym\<close> is \<open>syms\<close> here (\<open>sym\<close> is a constant of HOL).\<close>

definition get_molecule_info :: "string \<Rightarrow> py_error + (int list \<times> int list \<times> string list)" where
  "get_molecule_info expr =
     (if CHR '':'' \<notin> set expr then Inr ([], [], [])
      else
        (case get_number_symbol expr of (tmp_nbrs, syms) \<Rightarrow>
           if length tmp_nbrs > length syms then
             (case py_gather tmp_nbrs (py_range 0 (length tmp_nbrs) 2) of
                Inl e \<Rightarrow> Inl e
              | Inr multi \<Rightarrow>
                  (case py_gather tmp_nbrs (py_range 1 (length tmp_nbrs + 1) 2) of
                     Inl e \<Rightarrow> Inl e
                   | Inr a \<Rightarrow> Inr (multi, a, syms)))
           else Inr (replicate (length tmp_nbrs) 1, tmp_nbrs, syms)))"

text \<open>
  \<^verbatim>\<open>[self.symbols[isym] for isym in sym]\<close>: the first symbol that is not a key
  raises \<^verbatim>\<open>KeyError\<close>.
\<close>

fun lookup_symbols :: "string list \<Rightarrow> py_error + int list" where
  "lookup_symbols [] = Inr []"
| "lookup_symbols (isym # syms) =
     (case symbols isym of
        None \<Rightarrow> Inl (KeyError isym)
      | Some z \<Rightarrow> (case lookup_symbols syms of Inl e \<Rightarrow> Inl e | Inr zs \<Rightarrow> Inr (z # zs)))"

text \<open>
  The value returned by \<^verbatim>\<open>evaluate_expr\<close>: with \<^verbatim>\<open>flag\<close> the combined tuple
  (string, int, int, int), without it the four lists (symbols, multiplicities, mass
  numbers, proton numbers).
\<close>

datatype eval_result =
    Combined string int int int
  | Listed "string list" "int list" "int list" "int list"

definition evaluate_expr :: "string \<Rightarrow> bool \<Rightarrow> py_error + eval_result" where
  "evaluate_expr expr flag =
     (case (if CHR '':'' \<in> set expr then get_molecule_info expr
            else (case get_number_symbol expr of (a, syms) \<Rightarrow>
                    Inr (replicate (length a) 1, a, syms))) of
        Inl e \<Rightarrow> Inl e
      | Inr (m, a, syms) \<Rightarrow>
          (case lookup_symbols syms of
             Inl e \<Rightarrow> Inl e
           | Inr z \<Rightarrow>
               Inr (if flag then Combined (concat syms) (sum_list m) (sum_list a) (sum_list z)
                    else Listed syms m a z)))"

section \<open>The table\<close>

text \<open>
  A row of the data frame after \<^verbatim>\<open>load_table\<close> and \<^verbatim>\<open>add_charge_col\<close>: the columns
  \<^verbatim>\<open>N, Z, A, EL, ME, MEunc, ame_tot, amunc, charge\<close>. Loading the file is outside
  this development: the table is a parameter, a list of rows whose index is the
  position (\<^verbatim>\<open>read_fwf\<close> numbers the rows from 0, and \<^verbatim>\<open>add_entry_table\<close>
  renumbers with \<^verbatim>\<open>ignore_index=True\<close>). The floating-point columns are real
  numbers here, so rounding is not modelled.
\<close>

record nuclide =
  df_N :: int
  df_Z :: int
  df_A :: int
  df_EL :: string
  df_ME :: real
  df_MEunc :: real
  df_ame_tot :: real
  df_amunc :: real
  df_charge :: int

type_synonym dataframe = "nuclide list"

text \<open>
  \<^verbatim>\<open>self.df[(self.df['EL'] == el) & (self.df['A'] == a)].index.tolist()\<close>: the
  positions of the matching rows, in table order.
\<close>

definition match_idx :: "dataframe \<Rightarrow> string \<Rightarrow> int \<Rightarrow> nat list" where
  "match_idx df el a = filter (\<lambda>i. df_EL (df ! i) = el \<and> df_A (df ! i) = a) [0..<length df]"

text \<open>The row that \<^verbatim>\<open>self.df.at[idx[0], ...]\<close> reads: the first match, when there is one.\<close>

definition first_match :: "dataframe \<Rightarrow> string \<Rightarrow> int \<Rightarrow> nuclide option" where
  "first_match df el a = (case match_idx df el a of [] \<Rightarrow> None | j # _ \<Rightarrow> Some (df ! j))"

section \<open>\<^verbatim>\<open>get_ame_mass\<close>\<close>

text \<open>
  The first loop, \<^verbatim>\<open>for i in range(len(label))\<close>, reads \<^verbatim>\<open>label[i]\<close> and
  \<^verbatim>\<open>atomic_number[i]\<close> and appends the list of matching positions (possibly empty)
  to \<^verbatim>\<open>self.idx\<close>. It raises when \<^verbatim>\<open>atomic_number\<close> is the shorter list.
\<close>

fun collect_idx :: "dataframe \<Rightarrow> string list \<Rightarrow> int list \<Rightarrow> py_error + nat list list" where
  "collect_idx df [] atomic_number = Inr []"
| "collect_idx df (l # label) [] = Inl IndexError"
| "collect_idx df (l # label) (a # atomic_number) =
     (case collect_idx df label atomic_number of
        Inl e \<Rightarrow> Inl e
      | Inr idx \<Rightarrow> Inr (match_idx df l a # idx))"

text \<open>
  The second loop, \<^verbatim>\<open>for i in range(len(self.idx))\<close>, reads \<^verbatim>\<open>multiplicity[i]\<close>
  and \<^verbatim>\<open>self.idx[i][0]\<close> (both subscripts can raise) and adds to the two
  accumulators \<^verbatim>\<open>ame_mass\<close> and \<^verbatim>\<open>ame_unc\<close>.
\<close>

fun accumulate ::
  "dataframe \<Rightarrow> nat list list \<Rightarrow> int list \<Rightarrow> real \<times> real \<Rightarrow> py_error + real \<times> real" where
  "accumulate df [] multiplicity acc = Inr acc"
| "accumulate df (ix # idx) [] acc = Inl IndexError"
| "accumulate df (ix # idx) (mul # multiplicity) (ame_mass, ame_unc) =
     (case py_get ix 0 of
        Inl e \<Rightarrow> Inl e
      | Inr j \<Rightarrow>
          accumulate df idx multiplicity
            (ame_mass + real_of_int mul * df_ame_tot (df ! j),
             ame_unc + real_of_int mul * (df_amunc (df ! j))\<^sup>2))"

text \<open>
  The tuple \<^verbatim>\<open>sym, ame_mass, np.sqrt(ame_unc), a, z, n, q\<close> that \<^verbatim>\<open>get_ame_mass\<close>
  returns, as a record.
\<close>

record ame_result =
  res_sym :: string
  res_mass :: real
  res_unc :: real
  res_a :: int
  res_z :: int
  res_n :: int
  res_q :: int

definition not_found_notice :: string where
  "not_found_notice = ''Element or Atomic number not found in database''"

text \<open>
  The result is the list of lines printed, with the returned tuple. The field
  \<^verbatim>\<open>self.idx\<close> is scratch state of this method alone (no other method reads it), so
  it is a local value here. \<^verbatim>\<open>bool(self.idx)\<close> is false for the empty list only: a
  list that holds empty lists is true. The call of \<^verbatim>\<open>evaluate_expr\<close> is without the
  flag, so the combined tuple cannot come back (\<open>evaluate_expr_False_Listed\<close>).
\<close>

definition get_ame_mass :: "dataframe \<Rightarrow> string \<Rightarrow> py_error + (string list \<times> ame_result)" where
  "get_ame_mass df el_expr =
     (case evaluate_expr el_expr False of
        Inl e \<Rightarrow> Inl e
      | Inr (Combined s m a z) \<Rightarrow> Inl IndexError
      | Inr (Listed label multiplicity atomic_number z) \<Rightarrow>
          (case collect_idx df label atomic_number of
             Inl e \<Rightarrow> Inl e
           | Inr idx \<Rightarrow>
               (case (if idx = [] then Inr ([not_found_notice], (0, 0))
                      else (case accumulate df idx multiplicity (0, 0) of
                              Inl e \<Rightarrow> Inl e
                            | Inr acc \<Rightarrow> Inr ([], acc))) of
                  Inl e \<Rightarrow> Inl e
                | Inr (out, (ame_mass, ame_unc)) \<Rightarrow>
                    (let a = sum_list (map (\<lambda>(ai, mi). ai * mi) (zip atomic_number multiplicity));
                         zs = sum_list z
                     in Inr (out,
                          \<lparr>res_sym = concat label, res_mass = ame_mass, res_unc = sqrt ame_unc,
                           res_a = a, res_z = zs, res_n = a - zs, res_q = 1\<rparr>)))))"

text \<open>
  An expression resolves against a table when each of its symbols has a mass number and
  a multiplicity at its position, and the table has a row for each (symbol, mass
  number); \<open>rows\<close> lists the first matching rows, in the order of the symbols.
\<close>

definition resolves ::
  "dataframe \<Rightarrow> string list \<Rightarrow> int list \<Rightarrow> int list \<Rightarrow> nuclide list \<Rightarrow> bool" where
  "resolves df syms m a rows \<longleftrightarrow>
     length rows = length syms \<and> length syms \<le> length m \<and> length syms \<le> length a \<and>
     (\<forall>i<length syms. first_match df (syms ! i) (a ! i) = Some (rows ! i))"

section \<open>Mass excess and isomers\<close>

definition scale :: real where
  "scale = 931494.061"

definition mass_excess :: "real \<Rightarrow> real \<Rightarrow> real \<Rightarrow> real \<times> real" where
  "mass_excess atomic_mass unc_atomic_mass mass_number =
     ((atomic_mass * (1 / 1000000) - mass_number) * scale,
      (unc_atomic_mass * (1 / 1000000)) * scale)"

text \<open>The back-conversion \<^verbatim>\<open>amass = ((me / self.scale) + a) * 1E6\<close> of \<^verbatim>\<open>calc_isomer_mass\<close>.\<close>

definition isomer_amass :: "real \<Rightarrow> int \<Rightarrow> real" where
  "isomer_amass me a = ((me / scale) + real_of_int a) * 1000000"

text \<open>
  \<^verbatim>\<open>calc_isomer_mass\<close> returns a data frame of one row, which is the row here.
  \<^verbatim>\<open>self.df[cond].index.tolist()[0]\<close> raises when no row matches.
\<close>

definition calc_isomer_mass :: "dataframe \<Rightarrow> string \<Rightarrow> real \<Rightarrow> py_error + nuclide" where
  "calc_isomer_mass df el_id ex_erg =
     (case evaluate_expr el_id True of
        Inl e \<Rightarrow> Inl e
      | Inr (Listed syms ms as zs) \<Rightarrow> Inl IndexError
      | Inr (Combined s m a z) \<Rightarrow>
          (case py_get (match_idx df s a) 0 of
             Inl e \<Rightarrow> Inl e
           | Inr i \<Rightarrow>
               (let me = df_ME (df ! i) + ex_erg
                in Inr \<lparr>df_N = a - z, df_Z = z, df_A = a, df_EL = s @ ''^m'', df_ME = me,
                         df_MEunc = 0, df_ame_tot = isomer_amass me a, df_amunc = 0,
                         df_charge = 1\<rparr>)))"

section \<open>A small table\<close>

text \<open>Seven rows in the layout of the 2020 evaluation, used for the concrete evaluations.\<close>

definition sample_df :: dataframe where
  "sample_df =
    [\<lparr>df_N = 1, df_Z = 0, df_A = 1, df_EL = ''n'', df_ME = 8071.31806, df_MEunc = 0.00044,
      df_ame_tot = 1008664.9159, df_amunc = 0.00047, df_charge = 1\<rparr>,
     \<lparr>df_N = 0, df_Z = 1, df_A = 1, df_EL = ''H'', df_ME = 7288.971064, df_MEunc = 0.000013,
      df_ame_tot = 1007825.031898, df_amunc = 0.000014, df_charge = 1\<rparr>,
     \<lparr>df_N = 1, df_Z = 1, df_A = 2, df_EL = ''H'', df_ME = 13135.722895, df_MEunc = 0.000015,
      df_ame_tot = 2014101.777844, df_amunc = 0.000015, df_charge = 1\<rparr>,
     \<lparr>df_N = 8, df_Z = 8, df_A = 16, df_EL = ''O'', df_ME = -4737.00217, df_MEunc = 0.0003,
      df_ame_tot = 15994914.61926, df_amunc = 0.00032, df_charge = 1\<rparr>,
     \<lparr>df_N = 10, df_Z = 9, df_A = 19, df_EL = ''F'', df_ME = -1487.4451, df_MEunc = 0.0008,
      df_ame_tot = 18998403.16207, df_amunc = 0.00088, df_charge = 1\<rparr>,
     \<lparr>df_N = 20, df_Z = 20, df_A = 40, df_EL = ''Ca'', df_ME = -34846.384, df_MEunc = 0.02,
      df_ame_tot = 39962590.851, df_amunc = 0.022, df_charge = 1\<rparr>,
     \<lparr>df_N = 146, df_Z = 92, df_A = 238, df_EL = ''U'', df_ME = 47307.732, df_MEunc = 1.492,
      df_ame_tot = 238050786.936, df_amunc = 1.601, df_charge = 1\<rparr>]"

section \<open>Properties of the parse\<close>

lemmas char_class_defs = is_digit_def is_upper_def is_lower_def

lemmas parse_defs =
  evaluate_expr_def get_molecule_info_def get_number_symbol_def char_class_defs
  py_int_def digit_value_def py_range_def py_get_def symbols_def symbols_table_def

text \<open>Without the flag the result is the four lists, with it the combined tuple.\<close>

lemma evaluate_expr_False_Listed:
  "evaluate_expr expr False = Inr r \<Longrightarrow> \<exists>syms m a z. r = Listed syms m a z"
  by (auto simp: evaluate_expr_def split: sum.splits prod.splits if_splits)

lemma evaluate_expr_True_Combined:
  "evaluate_expr expr True = Inr r \<Longrightarrow> \<exists>s m a z. r = Combined s m a z"
  by (auto simp: evaluate_expr_def split: sum.splits prod.splits if_splits)

lemma py_gather_in_range:
  "\<forall>i\<in>set r. i < length xs \<Longrightarrow> py_gather xs r = Inr (map ((!) xs) r)"
  by (induction r) (simp_all add: py_get_def)

lemma py_gather_out_of_range:
  "\<exists>i\<in>set r. \<not> i < length xs \<Longrightarrow> py_gather xs r = Inl IndexError"
  by (induction r) (auto simp: py_get_def split: sum.splits)

lemma py_range_even_from_0: "py_range 0 (2 * n) 2 = map (\<lambda>k. 2 * k) [0..<n]"
  by (simp add: py_range_def mult.commute)

lemma py_range_even_from_1: "py_range 1 (2 * n + 1) 2 = map (\<lambda>k. 2 * k + 1) [0..<n]"
  by (simp add: py_range_def mult.commute add.commute)

lemma py_range_odd_from_1: "py_range 1 (2 * n + 1 + 1) 2 = map (\<lambda>k. 2 * k + 1) [0..<Suc n]"
  by (simp add: py_range_def mult.commute add.commute)

section \<open>Properties of the two loops of \<^verbatim>\<open>get_ame_mass\<close>\<close>

lemma collect_idx_ok:
  "length syms \<le> length a \<Longrightarrow>
   collect_idx df syms a = Inr (map (\<lambda>i. match_idx df (syms ! i) (a ! i)) [0..<length syms])"
proof (induction syms arbitrary: a)
  case Nil
  then show ?case by simp
next
  case (Cons l label)
  then obtain x a' where a: "a = x # a'" by (cases a) auto
  with Cons.prems have "length label \<le> length a'" by simp
  from Cons.IH [OF this] show ?case
    by (simp add: a map_upt_Suc del: upt_Suc)
qed

lemma collect_idx_short:
  "length a < length syms \<Longrightarrow> collect_idx df syms a = Inl IndexError"
  by (induction df syms a rule: collect_idx.induct) (auto split: sum.splits)

lemma accumulate_rows:
  assumes "length ixs = length rows" and "length ixs \<le> length ms"
    and "\<forall>i<length ixs. \<exists>j js. ixs ! i = j # js \<and> df ! j = rows ! i"
  shows "accumulate df ixs ms (mass, unc) =
         Inr (mass + (\<Sum>i<length ixs. real_of_int (ms ! i) * df_ame_tot (rows ! i)),
              unc + (\<Sum>i<length ixs. real_of_int (ms ! i) * (df_amunc (rows ! i))\<^sup>2))"
  using assms
proof (induction ixs arbitrary: rows ms mass unc)
  case Nil
  then show ?case by simp
next
  case (Cons ix ixs)
  from Cons.prems(1) obtain r rows' where rows: "rows = r # rows'" by (cases rows) auto
  from Cons.prems(2) obtain mu ms' where ms: "ms = mu # ms'" by (cases ms) auto
  from Cons.prems(3) obtain j js where ix: "ix = j # js" and dj: "df ! j = r"
    by (auto simp: rows)
  have len: "length ixs = length rows'" "length ixs \<le> length ms'"
    using Cons.prems(1,2) by (simp_all add: rows ms)
  have rest: "\<forall>i<length ixs. \<exists>j js. ixs ! i = j # js \<and> df ! j = rows' ! i"
    using Cons.prems(3) by (auto simp: rows)
  show ?case
    by (simp add: ix ms rows dj py_get_def Cons.IH [OF len rest]
        sum.lessThan_Suc_shift add.assoc del: sum.lessThan_Suc)
qed

text \<open>
  The multiplicities come from the number scan, so they are not negative, and the
  accumulator under \<^verbatim>\<open>np.sqrt\<close> is then not negative either.
\<close>

lemma accumulated_uncertainty_nonneg:
  assumes "\<forall>mu\<in>set ms. 0 \<le> mu" and "0 \<le> unc"
    and "accumulate df ixs ms (mass, unc) = Inr (mass', unc')"
  shows "0 \<le> unc'"
  using assms
proof (induction ixs arbitrary: ms mass unc)
  case Nil
  then show ?case by simp
next
  case (Cons ix ixs)
  from Cons.prems(3) obtain mu ms' where ms: "ms = mu # ms'" by (cases ms) auto
  from Cons.prems(3) obtain j js where ix: "ix = j # js"
    by (cases ix) (auto simp: ms py_get_def)
  from Cons.prems(1) have mu: "0 \<le> mu" and rest: "\<forall>mu\<in>set ms'. 0 \<le> mu"
    by (simp_all add: ms)
  from mu Cons.prems(2) have u: "0 \<le> unc + real_of_int mu * (df_amunc (df ! j))\<^sup>2"
    by simp
  from Cons.prems(3) have
    "accumulate df ixs ms' (mass + real_of_int mu * df_ame_tot (df ! j),
       unc + real_of_int mu * (df_amunc (df ! j))\<^sup>2) = Inr (mass', unc')"
    by (simp add: ms ix py_get_def)
  from Cons.IH [OF rest u this] show ?case .
qed

lemma first_match_SomeD:
  "first_match df el a = Some r \<Longrightarrow> \<exists>j js. match_idx df el a = j # js \<and> df ! j = r"
  by (auto simp: first_match_def split: list.splits)

text \<open>The whole result of \<^verbatim>\<open>get_ame_mass\<close> on an expression that resolves.\<close>

lemma get_ame_mass_resolved:
  assumes ev: "evaluate_expr expr False = Inr (Listed syms m a z)"
    and res: "resolves df syms m a rows"
  shows "get_ame_mass df expr =
         Inr (if syms = [] then [not_found_notice] else [],
              \<lparr>res_sym = concat syms,
               res_mass = (\<Sum>i<length syms. real_of_int (m ! i) * df_ame_tot (rows ! i)),
               res_unc = sqrt (\<Sum>i<length syms. real_of_int (m ! i) * (df_amunc (rows ! i))\<^sup>2),
               res_a = (\<Sum>(ai, mi)\<leftarrow>zip a m. ai * mi),
               res_z = sum_list z,
               res_n = (\<Sum>(ai, mi)\<leftarrow>zip a m. ai * mi) - sum_list z,
               res_q = 1\<rparr>)"
proof -
  let ?idx = "map (\<lambda>i. match_idx df (syms ! i) (a ! i)) [0..<length syms]"
  from res have len: "length rows = length syms" "length syms \<le> length m" "length syms \<le> length a"
    and fm: "\<forall>i<length syms. first_match df (syms ! i) (a ! i) = Some (rows ! i)"
    by (simp_all add: resolves_def)
  have c: "collect_idx df syms a = Inr ?idx"
    using len(3) by (rule collect_idx_ok)
  have l1: "length ?idx = length rows" and l2: "length ?idx \<le> length m"
    using len by simp_all
  have l3: "\<forall>i<length ?idx. \<exists>j js. ?idx ! i = j # js \<and> df ! j = rows ! i"
  proof (intro allI impI)
    fix i assume "i < length ?idx"
    then have i: "i < length syms" by simp
    with fm have "first_match df (syms ! i) (a ! i) = Some (rows ! i)" by blast
    from first_match_SomeD [OF this] show "\<exists>j js. ?idx ! i = j # js \<and> df ! j = rows ! i"
      using i by simp
  qed
  have acc: "accumulate df ?idx m (0, 0) =
      Inr (0 + (\<Sum>i<length ?idx. real_of_int (m ! i) * df_ame_tot (rows ! i)),
           0 + (\<Sum>i<length ?idx. real_of_int (m ! i) * (df_amunc (rows ! i))\<^sup>2))"
    by (rule accumulate_rows [OF l1 l2 l3])
  show ?thesis
  proof (cases "syms = []")
    case True
    then show ?thesis by (simp add: get_ame_mass_def ev Let_def)
  next
    case False
    then show ?thesis
      using acc by (simp add: get_ame_mass_def ev c Let_def)
  qed
qed

lemma lookup_symbols_Inr:
  "lookup_symbols syms = Inr z \<Longrightarrow> list_all2 (\<lambda>s zi. symbols s = Some zi) syms z"
  by (induction syms arbitrary: z) (auto split: option.splits sum.splits)

lemma evaluate_expr_proton_numbers:
  "evaluate_expr expr False = Inr (Listed syms m a z) \<Longrightarrow>
   list_all2 (\<lambda>s zi. symbols s = Some zi) syms z"
  by (auto simp: evaluate_expr_def split: sum.splits prod.splits if_splits
      dest: lookup_symbols_Inr)

section \<open>The molecule \<^verbatim>\<open>2H1:1O16\<close>\<close>

text \<open>
  Claim C1. For the expression \<^verbatim>\<open>"2H1:1O16"\<close> the molecule parse returns the
  multiplicities \<open>[2, 1]\<close> and the mass numbers \<open>[1, 16]\<close>; on any table that has a
  row for (H, 1) and a row for (O, 16), \<^verbatim>\<open>get_ame_mass\<close> returns the mass number
  \<open>2 * 1 + 1 * 16 = 18\<close> and the mass \<open>2 * mass(H, 1) + 1 * mass(O, 16)\<close>, each mass
  that of the first matching row.
\<close>

theorem water_molecule:
  assumes "first_match df ''H'' 1 = Some rH" and "first_match df ''O'' 16 = Some rO"
  shows "get_molecule_info ''2H1:1O16'' = Inr ([2, 1], [1, 16], [''H'', ''O'']) \<and>
         (\<exists>out r. get_ame_mass df ''2H1:1O16'' = Inr (out, r) \<and>
            res_a r = 2 * 1 + 1 * 16 \<and> res_a r = 18 \<and>
            res_mass r = 2 * df_ame_tot rH + 1 * df_ame_tot rO)"
proof -
  have parse: "get_molecule_info ''2H1:1O16'' = Inr ([2, 1], [1, 16], [''H'', ''O''])"
    by (simp add: parse_defs)
  have ev: "evaluate_expr ''2H1:1O16'' False = Inr (Listed [''H'', ''O''] [2, 1] [1, 16] [1, 8])"
    by (simp add: parse_defs)
  have res: "resolves df [''H'', ''O''] [2, 1] [1, 16] [rH, rO]"
    using assms by (simp add: resolves_def less_Suc_eq numeral_2_eq_2)
  show ?thesis
    using get_ame_mass_resolved [OF ev res] parse
    by (simp add: numeral_2_eq_2)
qed

theorem water_molecule_witness:
  "first_match sample_df ''H'' 1 = Some (sample_df ! 1) \<and>
   first_match sample_df ''O'' 16 = Some (sample_df ! 3) \<and>
   get_molecule_info ''2H1:1O16'' = Inr ([2, 1], [1, 16], [''H'', ''O'']) \<and>
   (\<exists>out r. get_ame_mass sample_df ''2H1:1O16'' = Inr (out, r) \<and>
      res_a r = 2 * 1 + 1 * 16 \<and> res_a r = 18 \<and>
      res_mass r = 2 * 1007825.031898 + 1 * 15994914.61926)"
proof -
  have h: "first_match sample_df ''H'' 1 = Some (sample_df ! 1)"
    by (simp add: first_match_def match_idx_def sample_df_def)
  have o: "first_match sample_df ''O'' 16 = Some (sample_df ! 3)"
    by (simp add: first_match_def match_idx_def sample_df_def)
  from water_molecule [OF h o] h o show ?thesis
    by (simp add: sample_df_def)
qed

section \<open>The accumulated uncertainty\<close>

text \<open>
  Claim C3. For every expression whose constituents all resolve to table rows,
  \<^verbatim>\<open>get_ame_mass\<close> returns as the uncertainty the square root of the sum, over the
  constituents, of multiplicity times the square of the row's uncertainty: the
  multiplicity enters linearly, it is not squared.
\<close>

theorem uncertainty_linear_in_multiplicity:
  assumes "evaluate_expr expr False = Inr (Listed syms m a z)"
    and "resolves df syms m a rows"
  shows "\<exists>out r. get_ame_mass df expr = Inr (out, r) \<and>
           res_unc r = sqrt (\<Sum>i<length syms. real_of_int (m ! i) * (df_amunc (rows ! i))\<^sup>2)"
  using get_ame_mass_resolved [OF assms] by simp

theorem uncertainty_linear_in_multiplicity_witness:
  "evaluate_expr ''2H1:1O16'' False = Inr (Listed [''H'', ''O''] [2, 1] [1, 16] [1, 8]) \<and>
   resolves sample_df [''H'', ''O''] [2, 1] [1, 16] [sample_df ! 1, sample_df ! 3] \<and>
   (\<exists>out r. get_ame_mass sample_df ''2H1:1O16'' = Inr (out, r) \<and>
      res_unc r = sqrt (2 * 0.000014\<^sup>2 + 1 * 0.00032\<^sup>2))"
proof -
  have ev: "evaluate_expr ''2H1:1O16'' False = Inr (Listed [''H'', ''O''] [2, 1] [1, 16] [1, 8])"
    by (simp add: parse_defs)
  have res: "resolves sample_df [''H'', ''O''] [2, 1] [1, 16] [sample_df ! 1, sample_df ! 3]"
    by (simp add: resolves_def less_Suc_eq numeral_2_eq_2 first_match_def match_idx_def
        sample_df_def)
  from uncertainty_linear_in_multiplicity [OF ev res] ev res show ?thesis
    by (simp add: sample_df_def numeral_2_eq_2)
qed

text \<open>
  With a multiplicity other than 1 this is not the root of the sum of the squares of
  multiplicity times uncertainty: for \<^verbatim>\<open>"2H1:1O16"\<close> on the small table the two
  values differ.
\<close>

lemma uncertainty_not_multiplicity_squared:
  "\<exists>out r. get_ame_mass sample_df ''2H1:1O16'' = Inr (out, r) \<and>
     res_unc r = sqrt (2 * 0.000014\<^sup>2 + 1 * 0.00032\<^sup>2) \<and>
     res_unc r \<noteq> sqrt ((2 * 0.000014)\<^sup>2 + (1 * 0.00032)\<^sup>2)"
proof -
  have ev: "evaluate_expr ''2H1:1O16'' False = Inr (Listed [''H'', ''O''] [2, 1] [1, 16] [1, 8])"
    by (simp add: parse_defs)
  have res: "resolves sample_df [''H'', ''O''] [2, 1] [1, 16] [sample_df ! 1, sample_df ! 3]"
    by (simp add: resolves_def less_Suc_eq numeral_2_eq_2 first_match_def match_idx_def
        sample_df_def)
  have ne: "sqrt (2 * 0.000014\<^sup>2 + 1 * 0.00032\<^sup>2) \<noteq> sqrt ((2 * 0.000014)\<^sup>2 + (1 * 0.00032)\<^sup>2)"
    by (simp add: power2_eq_square)
  from get_ame_mass_resolved [OF ev res] ne show ?thesis
    by (simp add: sample_df_def numeral_2_eq_2)
qed

section \<open>Proton number, neutron number and charge\<close>

text \<open>
  Claim C4. For every expression that resolves, \<^verbatim>\<open>get_ame_mass\<close> returns as Z the
  sum of the constituents' proton numbers, each counted once whatever its
  multiplicity (the mass number A is the sum of mass number times multiplicity), as N
  the difference A - Z, and the charge 1.
\<close>

theorem proton_neutron_charge:
  assumes "evaluate_expr expr False = Inr (Listed syms m a z)"
    and "resolves df syms m a rows"
  shows "list_all2 (\<lambda>s zi. symbols s = Some zi) syms z \<and>
         (\<exists>out r. get_ame_mass df expr = Inr (out, r) \<and>
            res_z r = sum_list z \<and>
            res_a r = (\<Sum>(ai, mi)\<leftarrow>zip a m. ai * mi) \<and>
            res_n r = res_a r - res_z r \<and> res_q r = 1)"
  using get_ame_mass_resolved [OF assms] evaluate_expr_proton_numbers [OF assms(1)] by simp

theorem proton_neutron_charge_witness:
  "evaluate_expr ''2H1:1O16'' False = Inr (Listed [''H'', ''O''] [2, 1] [1, 16] [1, 8]) \<and>
   resolves sample_df [''H'', ''O''] [2, 1] [1, 16] [sample_df ! 1, sample_df ! 3] \<and>
   (\<exists>out r. get_ame_mass sample_df ''2H1:1O16'' = Inr (out, r) \<and>
      res_z r = 1 + 8 \<and> res_a r = 18 \<and> res_n r = 9 \<and> res_q r = 1)"
proof -
  have ev: "evaluate_expr ''2H1:1O16'' False = Inr (Listed [''H'', ''O''] [2, 1] [1, 16] [1, 8])"
    by (simp add: parse_defs)
  have res: "resolves sample_df [''H'', ''O''] [2, 1] [1, 16] [sample_df ! 1, sample_df ! 3]"
    by (simp add: resolves_def less_Suc_eq numeral_2_eq_2 first_match_def match_idx_def
        sample_df_def)
  from proton_neutron_charge [OF ev res] ev res show ?thesis
    by auto
qed

section \<open>A lookup that finds no row\<close>

text \<open>
  An empty list of positions in \<^verbatim>\<open>self.idx\<close> makes the second loop raise at
  \<^verbatim>\<open>self.idx[i][0]\<close>: the test \<^verbatim>\<open>not bool(self.idx)\<close> sees the outer list only.
\<close>

lemma accumulate_miss:
  "[] \<in> set ixs \<Longrightarrow> accumulate df ixs ms acc = Inl IndexError"
proof (induction ixs arbitrary: ms acc)
  case Nil
  then show ?case by simp
next
  case (Cons ix ixs)
  show ?case
  proof (cases ms)
    case Nil
    then show ?thesis by simp
  next
    case (Cons mu ms')
    obtain mass unc where acc: "acc = (mass, unc)" by (cases acc)
    show ?thesis
    proof (cases ix)
      case Nil
      then show ?thesis by (simp add: Cons acc py_get_def)
    next
      case (Cons j js)
      with Cons.prems have "[] \<in> set ixs" by simp
      from Cons.IH [OF this] show ?thesis
        by (simp add: \<open>ms = mu # ms'\<close> acc Cons py_get_def)
    qed
  qed
qed

lemma get_ame_mass_lookup_miss:
  assumes ev: "evaluate_expr expr False = Inr (Listed syms m a z)"
    and i: "i < length syms" and miss: "i < length a \<longrightarrow> first_match df (syms ! i) (a ! i) = None"
  shows "get_ame_mass df expr = Inl IndexError"
proof (cases "length syms \<le> length a")
  case False
  then have "collect_idx df syms a = Inl IndexError"
    by (simp add: collect_idx_short)
  then show ?thesis by (simp add: get_ame_mass_def ev)
next
  case True
  let ?idx = "map (\<lambda>i. match_idx df (syms ! i) (a ! i)) [0..<length syms]"
  have c: "collect_idx df syms a = Inr ?idx"
    using True by (rule collect_idx_ok)
  from True i miss have "match_idx df (syms ! i) (a ! i) = []"
    by (auto simp: first_match_def split: list.splits)
  with i have "[] \<in> set ?idx" by force
  then have "accumulate df ?idx m (0, 0) = Inl IndexError"
    by (rule accumulate_miss)
  moreover from i have "?idx \<noteq> []" by auto
  ultimately show ?thesis
    by (simp add: get_ame_mass_def ev c)
qed

text \<open>
  Claim C2 says that an expression with a constituent that has no table row is
  reported as not found and returns with zero mass. The code raises instead: on the
  small table, \<^verbatim>\<open>"300U"\<close> parses to the one constituent (U, 300), no row matches,
  and \<^verbatim>\<open>get_ame_mass\<close> ends in the \<^verbatim>\<open>IndexError\<close> of \<^verbatim>\<open>self.idx[0][0]\<close>.
\<close>

theorem lookup_miss_raises:
  "evaluate_expr ''300U'' False = Inr (Listed [''U''] [1] [300] [92]) \<and>
   first_match sample_df ''U'' 300 = None \<and>
   get_ame_mass sample_df ''300U'' = Inl IndexError"
  by (simp add: get_ame_mass_def parse_defs first_match_def match_idx_def sample_df_def)

section \<open>The mass-excess round trip\<close>

text \<open>
  Claim C7. For every mass \<open>m\<close>, uncertainty and mass number \<open>A\<close>, the mass excess
  \<open>(m * 1e-6 - A) * 931494.061\<close> of \<^verbatim>\<open>mass_excess\<close>, taken with excitation energy 0
  through the back-conversion \<open>((ME / 931494.061) + A) * 1e6\<close> of
  \<^verbatim>\<open>calc_isomer_mass\<close>, gives \<open>m\<close> again (exactly, over the real numbers).
\<close>

theorem mass_excess_round_trip:
  "isomer_amass (fst (mass_excess m unc (real_of_int A)) + 0) A = m"
  by (simp add: isomer_amass_def mass_excess_def scale_def field_simps)

section \<open>Colons only switch the molecule parse on\<close>

text \<open>
  Claim C10. Two expressions that both contain a colon and from which the two scans
  extract the same numbers and the same symbols evaluate to the same result (or the
  same exception), with or without the flag: where the colons stand does not matter.
\<close>

theorem colon_positions_irrelevant:
  assumes "CHR '':'' \<in> set e1" and "CHR '':'' \<in> set e2"
    and "get_number_symbol e1 = get_number_symbol e2"
  shows "evaluate_expr e1 flag = evaluate_expr e2 flag"
  using assms by (simp add: evaluate_expr_def get_molecule_info_def)

theorem colon_positions_irrelevant_witness:
  "CHR '':'' \<in> set ''40Ca:19F'' \<and> CHR '':'' \<in> set ''40:Ca19F'' \<and>
   get_number_symbol ''40Ca:19F'' = get_number_symbol ''40:Ca19F'' \<and>
   evaluate_expr ''40Ca:19F'' False = evaluate_expr ''40:Ca19F'' False \<and>
   evaluate_expr ''40:Ca19F'' False = Inr (Listed [''Ca'', ''F''] [1, 1] [40, 19] [20, 9])"
proof -
  have c1: "CHR '':'' \<in> set ''40Ca:19F''" and c2: "CHR '':'' \<in> set ''40:Ca19F''"
    by simp_all
  have g: "get_number_symbol ''40Ca:19F'' = get_number_symbol ''40:Ca19F''"
    by (simp add: get_number_symbol_def char_class_defs py_int_def digit_value_def)
  have v: "evaluate_expr ''40:Ca19F'' False = Inr (Listed [''Ca'', ''F''] [1, 1] [40, 19] [20, 9])"
    by (simp add: parse_defs)
  from colon_positions_irrelevant [OF c1 c2 g, of False] c1 c2 g v show ?thesis
    by simp
qed

section \<open>The interleaved numbers of a molecule\<close>

lemma get_molecule_info_even:
  assumes "CHR '':'' \<in> set expr" and "get_number_symbol expr = (tmp_nbrs, syms)"
    and "length syms < length tmp_nbrs" and "even (length tmp_nbrs)"
  shows "get_molecule_info expr =
         Inr (map (\<lambda>k. tmp_nbrs ! (2 * k)) [0..<length tmp_nbrs div 2],
              map (\<lambda>k. tmp_nbrs ! (2 * k + 1)) [0..<length tmp_nbrs div 2], syms)"
proof -
  from assms(4) obtain n where n: "length tmp_nbrs = 2 * n" by (auto elim: evenE)
  have "py_gather tmp_nbrs (map (\<lambda>k. 2 * k) [0..<n]) =
        Inr (map ((!) tmp_nbrs) (map (\<lambda>k. 2 * k) [0..<n]))"
    by (rule py_gather_in_range) (auto simp: n)
  then have g0: "py_gather tmp_nbrs (py_range 0 (length tmp_nbrs) 2) =
                 Inr (map (\<lambda>k. tmp_nbrs ! (2 * k)) [0..<n])"
    by (simp only: n py_range_even_from_0 map_map comp_def)
  have "py_gather tmp_nbrs (map (\<lambda>k. 2 * k + 1) [0..<n]) =
        Inr (map ((!) tmp_nbrs) (map (\<lambda>k. 2 * k + 1) [0..<n]))"
    by (rule py_gather_in_range) (auto simp: n)
  then have g1: "py_gather tmp_nbrs (py_range 1 (length tmp_nbrs + 1) 2) =
                 Inr (map (\<lambda>k. tmp_nbrs ! (2 * k + 1)) [0..<n])"
    by (simp only: n py_range_even_from_1 map_map comp_def)
  have half: "length tmp_nbrs div 2 = n"
    by (simp add: n)
  have "get_molecule_info expr =
        (case py_gather tmp_nbrs (py_range 0 (length tmp_nbrs) 2) of
           Inl e \<Rightarrow> Inl e
         | Inr multi \<Rightarrow>
             (case py_gather tmp_nbrs (py_range 1 (length tmp_nbrs + 1) 2) of
                Inl e \<Rightarrow> Inl e
              | Inr a \<Rightarrow> Inr (multi, a, syms)))"
    using assms(1,3) by (simp add: get_molecule_info_def assms(2))
  also have "\<dots> = Inr (map (\<lambda>k. tmp_nbrs ! (2 * k)) [0..<n],
                       map (\<lambda>k. tmp_nbrs ! (2 * k + 1)) [0..<n], syms)"
    by (simp only: g0 g1 sum.case)
  finally show ?thesis by (simp only: half)
qed

lemma get_molecule_info_odd:
  assumes "CHR '':'' \<in> set expr" and "get_number_symbol expr = (tmp_nbrs, syms)"
    and "length syms < length tmp_nbrs" and "odd (length tmp_nbrs)"
  shows "get_molecule_info expr = Inl IndexError"
proof -
  from assms(4) obtain n where n: "length tmp_nbrs = 2 * n + 1" by (auto elim: oddE)
  have g0: "py_gather tmp_nbrs (py_range 0 (length tmp_nbrs) 2) =
            Inr (map ((!) tmp_nbrs) (py_range 0 (length tmp_nbrs) 2))"
    by (rule py_gather_in_range) (auto simp: n py_range_def)
  have "py_gather tmp_nbrs (map (\<lambda>k. 2 * k + 1) [0..<Suc n]) = Inl IndexError"
    by (rule py_gather_out_of_range) (auto simp: n)
  then have g1: "py_gather tmp_nbrs (py_range 1 (length tmp_nbrs + 1) 2) = Inl IndexError"
    by (simp only: n py_range_odd_from_1)
  have "get_molecule_info expr =
        (case py_gather tmp_nbrs (py_range 0 (length tmp_nbrs) 2) of
           Inl e \<Rightarrow> Inl e
         | Inr multi \<Rightarrow>
             (case py_gather tmp_nbrs (py_range 1 (length tmp_nbrs + 1) 2) of
                Inl e \<Rightarrow> Inl e
              | Inr a \<Rightarrow> Inr (multi, a, syms)))"
    using assms(1,3) by (simp add: get_molecule_info_def assms(2))
  also have "\<dots> = Inl IndexError"
    by (simp only: g0 g1 sum.case)
  finally show ?thesis .
qed

text \<open>
  Claim C8, amended. For every expression that contains a colon and has more numbers
  than symbols, and an even count of numbers, \<^verbatim>\<open>get_molecule_info\<close> returns: the
  multiplicities are the numbers at the even positions, the mass numbers those at the
  odd positions, and the two lists have the same length.
\<close>

theorem molecule_interleaved_even:
  assumes "CHR '':'' \<in> set expr" and "get_number_symbol expr = (tmp_nbrs, syms)"
    and "length syms < length tmp_nbrs" and "even (length tmp_nbrs)"
  shows "\<exists>multi a. get_molecule_info expr = Inr (multi, a, syms) \<and>
           length multi = length a \<and>
           multi = map (\<lambda>k. tmp_nbrs ! (2 * k)) [0..<length tmp_nbrs div 2] \<and>
           a = map (\<lambda>k. tmp_nbrs ! (2 * k + 1)) [0..<length tmp_nbrs div 2]"
  using get_molecule_info_even [OF assms] by simp

theorem molecule_interleaved_even_witness:
  "CHR '':'' \<in> set ''2H1:1O16'' \<and>
   get_number_symbol ''2H1:1O16'' = ([2, 1, 1, 16], [''H'', ''O'']) \<and>
   (\<exists>multi a. get_molecule_info ''2H1:1O16'' = Inr (multi, a, [''H'', ''O'']) \<and>
      length multi = length a \<and> multi = [2, 1] \<and> a = [1, 16])"
proof -
  have c: "CHR '':'' \<in> set ''2H1:1O16''" by simp
  have g: "get_number_symbol ''2H1:1O16'' = ([2, 1, 1, 16], [''H'', ''O''])"
    by (simp add: get_number_symbol_def char_class_defs py_int_def digit_value_def)
  have l: "length [''H'', ''O''] < length [2, 1, 1, 16 :: int]" by simp
  have e: "even (length [2, 1, 1, 16 :: int])" by simp
  from molecule_interleaved_even [OF c g l e] c g show ?thesis
    by (simp add: upt_rec)
qed

text \<open>
  The claim as stated, for every count of numbers above the count of symbols, fails
  at an odd count: \<^verbatim>\<open>"2H1:O16"\<close> has three numbers and two symbols, and
  \<^verbatim>\<open>range(1, len(tmp_nbrs)+1, 2)\<close> reaches the index 3.
\<close>

theorem molecule_odd_count_counterexample:
  "CHR '':'' \<in> set ''2H1:O16'' \<and>
   get_number_symbol ''2H1:O16'' = ([2, 1, 16], [''H'', ''O'']) \<and>
   length [''H'', ''O''] < length [2, 1, 16 :: int] \<and>
   get_molecule_info ''2H1:O16'' = Inl IndexError"
  by (simp add: parse_defs)

section \<open>Symbol tokens\<close>

text \<open>
  Every key of \<^verbatim>\<open>Ame.symbols\<close> except the neutron \<^verbatim>\<open>'n'\<close> is a token of the
  symbol scan; the lower-case \<^verbatim>\<open>n\<close> is matched by neither alternative.
\<close>

lemma upper_not_digit: "is_upper c \<Longrightarrow> \<not> is_digit c"
  by (auto simp: char_class_defs)

lemma lower_not_digit: "is_lower c \<Longrightarrow> \<not> is_digit c"
  by (auto simp: char_class_defs)

lemma digit_not_upper: "is_digit c \<Longrightarrow> \<not> is_upper c"
  by (auto simp: char_class_defs)

lemma lower_not_upper: "is_lower c \<Longrightarrow> \<not> is_upper c"
  by (auto simp: char_class_defs)

lemma colon_in_no_class:
  "\<not> is_upper CHR '':''" "\<not> is_lower CHR '':''" "\<not> is_digit CHR '':''"
  by (simp_all add: char_class_defs)

lemma symbol_token_cases:
  assumes "symbol_token s"
  obtains c where "s = [c]" "is_upper c"
  | c d where "s = [c, d]" "is_upper c" "is_lower d"
  using assms by (auto simp: symbol_token_def split: list.splits)

lemma symbols_table_tokens:
  "list_all (\<lambda>(s, z). s = ''n'' \<or> symbol_token s) symbols_table"
  by (simp add: symbols_table_def symbol_token_def char_class_defs)

lemma known_symbol_token:
  assumes "symbols s = Some z" and "s \<noteq> ''n''"
  shows "symbol_token s"
proof -
  from assms(1) have "(s, z) \<in> set symbols_table"
    unfolding symbols_def by (rule map_of_SomeD)
  with symbols_table_tokens have "s = ''n'' \<or> symbol_token s"
    by (auto simp: list_all_iff)
  with assms(2) show ?thesis by simp
qed

lemma token_scans:
  assumes "symbol_token s"
  shows "findall_symbols s = [s]" and "findall_numbers s = []" and "CHR '':'' \<notin> set s"
  using assms
  by (auto elim!: symbol_token_cases
      simp: upper_not_digit lower_not_digit lower_not_upper colon_in_no_class)

lemma evaluate_expr_token:
  assumes "symbol_token s" and "symbols s = Some z"
  shows "evaluate_expr s False = Inr (Listed [s] [] [] [z])"
  using token_scans [OF assms(1)] assms(2)
  by (simp add: evaluate_expr_def get_number_symbol_def)

section \<open>A symbol without a mass number\<close>

text \<open>
  Claim C9, amended. For every expression that is a known element symbol (a key of
  the symbol table other than \<^verbatim>\<open>'n'\<close>) and nothing else, there is no colon and
  \<^verbatim>\<open>evaluate_expr\<close> returns the one symbol and its proton number, with an empty list
  of mass numbers and an empty list of multiplicities.
\<close>

theorem symbol_without_mass_number:
  assumes "symbols expr = Some z" and "expr \<noteq> ''n''"
  shows "CHR '':'' \<notin> set expr \<and> evaluate_expr expr False = Inr (Listed [expr] [] [] [z])"
  using known_symbol_token [OF assms] assms(1)
  by (simp add: evaluate_expr_token token_scans)

theorem symbol_without_mass_number_witness:
  "symbols ''Rb'' = Some 37 \<and> ''Rb'' \<noteq> ''n'' \<and>
   CHR '':'' \<notin> set ''Rb'' \<and> evaluate_expr ''Rb'' False = Inr (Listed [''Rb''] [] [] [37])"
proof -
  have s: "symbols ''Rb'' = Some 37" by (simp add: symbols_def symbols_table_def)
  have n: "''Rb'' \<noteq> ''n''" by simp
  from symbol_without_mass_number [OF s n] s n show ?thesis by simp
qed

text \<open>
  The claim as stated asks for one constituent of multiplicity 1 with a zero or
  undefined mass number. For \<^verbatim>\<open>"U"\<close> the number scan finds nothing, so
  \<^verbatim>\<open>a\<close> and \<^verbatim>\<open>m = [1] * len(a)\<close> are empty while \<^verbatim>\<open>sym\<close> and \<^verbatim>\<open>z\<close> have one
  element each.
\<close>

theorem symbol_without_mass_number_counterexample:
  "symbols ''U'' = Some 92 \<and> CHR '':'' \<notin> set ''U'' \<and>
   evaluate_expr ''U'' False = Inr (Listed [''U''] [] [] [92]) \<and>
   evaluate_expr ''U'' False \<noteq> Inr (Listed [''U''] [1] [0] [92])"
  by (simp add: parse_defs)

section \<open>Unknown symbols\<close>

lemma lookup_symbols_unknown:
  "s \<in> set syms \<Longrightarrow> symbols s = None \<Longrightarrow>
   \<exists>k. List.find (\<lambda>k. symbols k = None) syms = Some k \<and> lookup_symbols syms = Inl (KeyError k)"
  by (induction syms) (auto split: option.splits sum.splits)

lemma get_molecule_info_symbols:
  "CHR '':'' \<in> set expr \<Longrightarrow> get_molecule_info expr = Inr (m, a, syms) \<Longrightarrow>
   syms = snd (get_number_symbol expr)"
  by (auto simp: get_molecule_info_def split: prod.splits if_splits sum.splits)

lemma get_molecule_info_returns:
  assumes "CHR '':'' \<in> set expr"
    and "length (fst (get_number_symbol expr)) \<le> length (snd (get_number_symbol expr)) \<or>
         even (length (fst (get_number_symbol expr)))"
  shows "\<exists>m a. get_molecule_info expr = Inr (m, a, snd (get_number_symbol expr))"
proof (cases "length (snd (get_number_symbol expr)) < length (fst (get_number_symbol expr))")
  case True
  with assms(2) have "even (length (fst (get_number_symbol expr)))" by auto
  from get_molecule_info_even [OF assms(1) _ True this] show ?thesis by simp
next
  case False
  obtain nums syms where g: "get_number_symbol expr = (nums, syms)"
    by (cases "get_number_symbol expr")
  with False assms(1) show ?thesis
    by (simp add: get_molecule_info_def)
qed

text \<open>
  Claim C6, amended. For every expression from which the symbol scan extracts a token
  that is not a key of the symbol table, \<^verbatim>\<open>evaluate_expr\<close> returns no result, so no
  proton number is made up for the token; and whenever the parse of numbers and
  symbols returns (there is no colon, or there are not more numbers than symbols, or
  the count of numbers is even) it raises \<^verbatim>\<open>KeyError\<close> for the first unknown token.
\<close>

theorem unknown_symbol_never_resolves:
  assumes "s \<in> set (snd (get_number_symbol expr))" and "symbols s = None"
  shows "(\<forall>r. evaluate_expr expr flag \<noteq> Inr r) \<and>
         (CHR '':'' \<notin> set expr \<or>
          length (fst (get_number_symbol expr)) \<le> length (snd (get_number_symbol expr)) \<or>
          even (length (fst (get_number_symbol expr))) \<longrightarrow>
          (\<exists>k. List.find (\<lambda>k. symbols k = None) (snd (get_number_symbol expr)) = Some k \<and>
               evaluate_expr expr flag = Inl (KeyError k)))"
proof -
  from lookup_symbols_unknown [OF assms] obtain k
    where k: "List.find (\<lambda>k. symbols k = None) (snd (get_number_symbol expr)) = Some k"
      and l: "lookup_symbols (snd (get_number_symbol expr)) = Inl (KeyError k)"
    by blast
  have never: "evaluate_expr expr flag \<noteq> Inr r" for r
  proof (cases "CHR '':'' \<in> set expr")
    case True
    show ?thesis
    proof (cases "get_molecule_info expr")
      case (Inl e)
      with True show ?thesis by (simp add: evaluate_expr_def)
    next
      case (Inr t)
      obtain m a syms where t: "t = (m, a, syms)" by (cases t)
      from get_molecule_info_symbols [OF True Inr [unfolded t]] l
      show ?thesis using True Inr by (simp add: evaluate_expr_def t)
    qed
  next
    case False
    obtain nums syms where g: "get_number_symbol expr = (nums, syms)"
      by (cases "get_number_symbol expr")
    with False l show ?thesis
      by (simp add: evaluate_expr_def)
  qed
  have raises: "evaluate_expr expr flag = Inl (KeyError k)"
    if "CHR '':'' \<notin> set expr \<or>
        length (fst (get_number_symbol expr)) \<le> length (snd (get_number_symbol expr)) \<or>
        even (length (fst (get_number_symbol expr)))"
  proof (cases "CHR '':'' \<in> set expr")
    case True
    with that get_molecule_info_returns [OF True] obtain m a
      where "get_molecule_info expr = Inr (m, a, snd (get_number_symbol expr))" by blast
    with True l show ?thesis by (simp add: evaluate_expr_def)
  next
    case False
    obtain nums syms where g: "get_number_symbol expr = (nums, syms)"
      by (cases "get_number_symbol expr")
    with False l show ?thesis
      by (simp add: evaluate_expr_def)
  qed
  from never raises k show ?thesis by blast
qed

theorem unknown_symbol_never_resolves_witness:
  "''Zz'' \<in> set (snd (get_number_symbol ''99Zz'')) \<and> symbols ''Zz'' = None \<and>
   CHR '':'' \<notin> set ''99Zz'' \<and>
   (\<forall>r. evaluate_expr ''99Zz'' False \<noteq> Inr r) \<and>
   evaluate_expr ''99Zz'' False = Inl (KeyError ''Zz'')"
proof -
  have t: "''Zz'' \<in> set (snd (get_number_symbol ''99Zz''))"
    by (simp add: get_number_symbol_def char_class_defs)
  have u: "symbols ''Zz'' = None"
    by (simp add: symbols_def symbols_table_def)
  have f: "List.find (\<lambda>k. symbols k = None) (snd (get_number_symbol ''99Zz'')) = Some ''Zz''"
    using u by (simp add: get_number_symbol_def char_class_defs)
  from unknown_symbol_never_resolves [OF t u, of False] t u f show ?thesis
    by simp
qed

text \<open>
  The claim as stated, an unknown-symbol error for every such expression, fails where
  the molecule parse raises first: \<^verbatim>\<open>"2Zz1:1"\<close> has three numbers and one symbol,
  and \<^verbatim>\<open>get_molecule_info\<close> ends in \<^verbatim>\<open>IndexError\<close> before any symbol is looked up.
\<close>

theorem unknown_symbol_odd_molecule_counterexample:
  "''Zz'' \<in> set (snd (get_number_symbol ''2Zz1:1'')) \<and> symbols ''Zz'' = None \<and>
   evaluate_expr ''2Zz1:1'' False = Inl IndexError \<and>
   evaluate_expr ''2Zz1:1'' False \<noteq> Inl (KeyError ''Zz'')"
  by (simp add: parse_defs)

section \<open>Single nuclides\<close>

lemma digits_cases:
  assumes "ds \<noteq> []" and "length ds \<le> 3"
  obtains a where "ds = [a]" | a b where "ds = [a, b]" | a b c where "ds = [a, b, c]"
proof -
  from assms(1) have "0 < length ds" by simp
  with assms(2) have "length ds = 1 \<or> length ds = 2 \<or> length ds = 3"
    by arith
  then have "(\<exists>a. ds = [a]) \<or> (\<exists>a b. ds = [a, b]) \<or> (\<exists>a b c. ds = [a, b, c])"
    by (auto simp: numeral_2_eq_2 numeral_3_eq_3 length_Suc_conv)
  with that show ?thesis by blast
qed

lemma single_nuclide_scans:
  assumes "ds \<noteq> []" and "length ds \<le> 3" and "\<forall>c\<in>set ds. is_digit c" and "symbol_token el"
  shows "findall_numbers (ds @ el) = [py_int ds] \<and> findall_symbols (ds @ el) = [el] \<and>
         CHR '':'' \<notin> set (ds @ el)"
proof -
  from assms(4) have el: "(\<exists>u. el = [u] \<and> is_upper u) \<or> (\<exists>u l. el = [u, l] \<and> is_upper u \<and> is_lower l)"
    by (auto elim: symbol_token_cases)
  from assms(1,2) show ?thesis
  proof (cases rule: digits_cases)
    case (1 a)
    with assms(3) el show ?thesis
      by (auto simp: upper_not_digit lower_not_digit lower_not_upper digit_not_upper colon_in_no_class)
  next
    case (2 a b)
    with assms(3) el show ?thesis
      by (auto simp: upper_not_digit lower_not_digit lower_not_upper digit_not_upper colon_in_no_class)
  next
    case (3 a b c)
    with assms(3) el show ?thesis
      by (auto simp: upper_not_digit lower_not_digit lower_not_upper digit_not_upper colon_in_no_class)
  qed
qed

text \<open>
  For one to three digits followed by a symbol token that is a key of the symbol
  table, with a row for the pair in the table: multiplicity 1, the mass number of the
  digits, the proton number of the key, and the mass of the first matching row.
\<close>

lemma evaluate_expr_single_nuclide:
  assumes "ds \<noteq> []" and "length ds \<le> 3" and "\<forall>c\<in>set ds. is_digit c"
    and "symbol_token el" and "symbols el = Some z"
  shows "evaluate_expr (ds @ el) False = Inr (Listed [el] [1] [py_int ds] [z])"
  using single_nuclide_scans [OF assms(1-4)] assms(5)
  by (simp add: evaluate_expr_def get_number_symbol_def)

lemma get_ame_mass_single_nuclide:
  assumes "ds \<noteq> []" and "length ds \<le> 3" and "\<forall>c\<in>set ds. is_digit c"
    and "symbol_token el" and "symbols el = Some z"
    and "first_match df el (py_int ds) = Some row"
  shows "get_ame_mass df (ds @ el) =
         Inr ([], \<lparr>res_sym = el, res_mass = df_ame_tot row, res_unc = \<bar>df_amunc row\<bar>,
                   res_a = py_int ds, res_z = z, res_n = py_int ds - z, res_q = 1\<rparr>)"
proof -
  have ev: "evaluate_expr (ds @ el) False = Inr (Listed [el] [1] [py_int ds] [z])"
    by (rule evaluate_expr_single_nuclide [OF assms(1-5)])
  have res: "resolves df [el] [1] [py_int ds] [row]"
    using assms(6) by (simp add: resolves_def)
  from get_ame_mass_resolved [OF ev res] show ?thesis by simp
qed

lemma get_ame_mass_single_nuclide_example:
  "get_ame_mass sample_df ''238U'' =
     Inr ([], \<lparr>res_sym = ''U'', res_mass = 238050786.936, res_unc = 1.601,
               res_a = 238, res_z = 92, res_n = 146, res_q = 1\<rparr>)"
proof -
  have "get_ame_mass sample_df (''238'' @ ''U'') =
     Inr ([], \<lparr>res_sym = ''U'', res_mass = df_ame_tot (sample_df ! 6),
               res_unc = \<bar>df_amunc (sample_df ! 6)\<bar>,
               res_a = py_int ''238'', res_z = 92, res_n = py_int ''238'' - 92, res_q = 1\<rparr>)"
    by (rule get_ame_mass_single_nuclide)
      (simp_all add: char_class_defs symbol_token_def symbols_def symbols_table_def
        first_match_def match_idx_def sample_df_def py_int_def digit_value_def)
  then show ?thesis
    by (simp add: sample_df_def py_int_def digit_value_def)
qed

text \<open>
  Claim C5 asks this of every known symbol. The neutron \<^verbatim>\<open>'n'\<close> is a key of
  \<^verbatim>\<open>Ame.symbols\<close> and the table of the evaluation has the row (n, 1), but the symbol
  scan has no alternative for a lower-case letter: \<^verbatim>\<open>"1n"\<close> evaluates to no symbol
  and no proton number, \<^verbatim>\<open>get_ame_mass\<close> prints the notice and the mass is 0, not
  the mass of the row.
\<close>

theorem neutron_not_found:
  "symbols ''n'' = Some 0 \<and>
   first_match sample_df ''n'' 1 = Some (sample_df ! 0) \<and>
   df_ame_tot (sample_df ! 0) = 1008664.9159 \<and>
   evaluate_expr ''1n'' False = Inr (Listed [] [1] [1] []) \<and>
   get_ame_mass sample_df ''1n'' =
     Inr ([not_found_notice],
          \<lparr>res_sym = [], res_mass = 0, res_unc = 0, res_a = 1, res_z = 0, res_n = 1,
           res_q = 1\<rparr>)"
  by (simp add: get_ame_mass_def parse_defs first_match_def match_idx_def sample_df_def)

end
